theory Spec2Isabelle
  imports Main "HOL-Library.Word"
begin

section \<open>The work-item CRUD router\<close>

text \<open>
  The repository is one Mongoose model (\<^verbatim>\<open>Work\<close>, two required string paths) and one
  Express router with five handlers. Every handler is a short sequence of calls into the
  two libraries, so the embedding has three layers:
  \<^item> the data: ObjectIds, documents, request fields, response bodies, errors;
  \<^item> the library calls the handlers make (\<^verbatim>\<open>find\<close>, \<^verbatim>\<open>findById\<close>, \<^verbatim>\<open>save\<close>,
    \<^verbatim>\<open>findByIdAndDelete\<close>, \<^verbatim>\<open>findByIdAndUpdate\<close>, \<^verbatim>\<open>res.status\<close>, \<^verbatim>\<open>res.json\<close>,
    \<^verbatim>\<open>console.log\<close>), each as an action on an explicit handler state;
  \<^item> the five handlers, written call by call as in the source, with \<^verbatim>\<open>try\<close>/\<^verbatim>\<open>catch\<close>
    as a combinator.

  Around the handlers, \<^verbatim>\<open>src/index.js\<close> mounts \<^verbatim>\<open>express.json()\<close> in front of the router;
  the last subsection of the model puts the body parser, the id generator and the router
  together.

  Scope of the model: one request at a time against a store that answers (no connection
  failure, no interleaving of two requests); Mongoose 6 or later (undefined keys are
  stripped from an update). Mongoose's version key \<^verbatim>\<open>__v\<close>, which this program never
  changes, is left out of the document.
\<close>

subsection \<open>ObjectIds\<close>

text \<open>
  An ObjectId is 12 bytes. The route parameter \<^verbatim>\<open>req.params.id\<close> is a string; Mongoose casts
  it to an ObjectId when it has 24 hexadecimal digits and raises a CastError otherwise.
  In JSON an ObjectId is written as its 24 lower-case hexadecimal digits.
\<close>

type_synonym objid = "96 word"

definition hexDigit :: "char \<Rightarrow> nat option" where
  "hexDigit c =
     (let n = (of_char c :: nat) in
      if 48 \<le> n \<and> n \<le> 57 then Some (n - 48)
      else if 97 \<le> n \<and> n \<le> 102 then Some (n - 87)
      else if 65 \<le> n \<and> n \<le> 70 then Some (n - 55)
      else None)"

fun hexDigits :: "string \<Rightarrow> nat list option" where
  "hexDigits [] = Some []"
| "hexDigits (c # cs) =
     (case hexDigit c of
        None \<Rightarrow> None
      | Some d \<Rightarrow> (case hexDigits cs of None \<Rightarrow> None | Some ds \<Rightarrow> Some (d # ds)))"

definition castObjectId :: "string \<Rightarrow> objid option" where
  "castObjectId s =
     (if length s = 24
      then (case hexDigits s of
              None \<Rightarrow> None
            | Some ds \<Rightarrow> Some (of_nat (foldl (\<lambda>acc d. acc * 16 + d) 0 ds)))
      else None)"

definition hexChar :: "nat \<Rightarrow> char" where
  "hexChar n = ''0123456789abcdef'' ! (n mod 16)"

definition toHexString :: "objid \<Rightarrow> string" where
  "toHexString i = map (\<lambda>k. hexChar (unat i div 16 ^ (23 - k))) [0..<24]"

subsection \<open>Documents, request fields, responses, errors\<close>

text \<open>
  A stored document has its \<^verbatim>\<open>_id\<close> and the two schema paths. A path holds a string or
  \<^verbatim>\<open>null\<close> (\<open>None\<close>): \<^verbatim>\<open>save\<close> never stores \<^verbatim>\<open>null\<close>, an update can.
\<close>

record work =
  oid :: objid
  title :: "string option"
  description :: "string option"

text \<open>
  A value the handler destructures from \<^verbatim>\<open>req.body\<close>, seen through Mongoose's cast to
  String: the key is absent (\<open>Undefined\<close>), it is \<^verbatim>\<open>null\<close>, it casts to a string (a JSON
  string is itself, a number or boolean is its \<^verbatim>\<open>toString()\<close>), or the cast fails
  (an array, a plain object).
\<close>

datatype reqfield = Undefined | Null | Str string | Uncastable

datatype error =
    CastError string              \<comment> \<open>the path whose value could not be cast\<close>
  | ValidationError "string list" \<comment> \<open>the paths that failed validation\<close>
  | DuplicateKey objid            \<comment> \<open>MongoDB's E11000 on the unique \<^verbatim>\<open>_id\<close> index\<close>
  | DocumentNotFoundError objid
  | TypeError                     \<comment> \<open>a method call on \<^verbatim>\<open>null\<close>\<close>
  | HeadersSent                   \<comment> \<open>ERR_HTTP_HEADERS_SENT\<close>

datatype body =
    Works "work list"               \<comment> \<open>\<^verbatim>\<open>json(works)\<close>\<close>
  | Work "work option"              \<comment> \<open>\<^verbatim>\<open>json(work)\<close>; \<open>None\<close> is the body \<^verbatim>\<open>null\<close>\<close>
  | Created string work             \<comment> \<open>\<^verbatim>\<open>{ message, newWork }\<close>\<close>
  | Deleted string "work option"    \<comment> \<open>\<^verbatim>\<open>{ message, work }\<close>\<close>
  | Message string                  \<comment> \<open>\<^verbatim>\<open>{ message }\<close>\<close>

datatype event =
    Called string "string list"   \<comment> \<open>a model method and the id it was given\<close>
  | Responded nat body            \<comment> \<open>a response written to the client\<close>
  | RespondFailed nat body        \<comment> \<open>\<^verbatim>\<open>res.json\<close> after the response was already written\<close>
  | ConsoleLog error

text \<open>
  The state a handler runs in: the collection in insertion order, the response object
  (\<^verbatim>\<open>res.statusCode\<close>, and what was written to the client, if anything), and the
  chronological record of what the handler did.
\<close>

record hstate =
  docs :: "work list"
  statusCode :: nat
  sent :: "(nat \<times> body) option"
  trace :: "event list"

definition request_start :: "work list \<Rightarrow> hstate" where
  "request_start ws = \<lparr>docs = ws, statusCode = 200, sent = None, trace = []\<rparr>"

text \<open>
  An action either returns a value or throws; the state survives a throw, as the store and
  the response object do.
\<close>

type_synonym 'a action = "hstate \<Rightarrow> (error + 'a) \<times> hstate"

definition return :: "'a \<Rightarrow> 'a action" where
  "return x st = (Inr x, st)"

definition andThen :: "'a action \<Rightarrow> ('a \<Rightarrow> 'b action) \<Rightarrow> 'b action" where
  "andThen m f st = (case m st of (Inl e, st') \<Rightarrow> (Inl e, st') | (Inr x, st') \<Rightarrow> f x st')"

definition tryCatch :: "'a action \<Rightarrow> (error \<Rightarrow> 'a action) \<Rightarrow> 'a action" where
  "tryCatch m h st = (case m st of (Inl e, st') \<Rightarrow> h e st' | (Inr x, st') \<Rightarrow> (Inr x, st'))"

definition record_event :: "event \<Rightarrow> hstate \<Rightarrow> hstate" where
  "record_event ev st = st\<lparr>trace := trace st @ [ev]\<rparr>"

subsection \<open>Express: the response object and the console\<close>

definition res_status :: "nat \<Rightarrow> unit action" where
  "res_status n st = (Inr (), st\<lparr>statusCode := n\<rparr>)"

text \<open>
  \<^verbatim>\<open>res.json\<close> writes the response with the current status code. Once a response has been
  written, a second \<^verbatim>\<open>res.json\<close> throws when it sets the Content-Type header.
\<close>

definition res_json :: "body \<Rightarrow> unit action" where
  "res_json b st =
     (case sent st of
        None \<Rightarrow> (Inr (), record_event (Responded (statusCode st) b) (st\<lparr>sent := Some (statusCode st, b)\<rparr>))
      | Some _ \<Rightarrow> (Inl HeadersSent, record_event (RespondFailed (statusCode st) b) st))"

definition console_log :: "error \<Rightarrow> unit action" where
  "console_log e st = (Inr (), record_event (ConsoleLog e) st)"

subsection \<open>Mongoose: the model's methods\<close>

fun findOne :: "objid \<Rightarrow> work list \<Rightarrow> work option" where
  "findOne i [] = None"
| "findOne i (w # ws) = (if oid w = i then Some w else findOne i ws)"

fun deleteOne :: "objid \<Rightarrow> work list \<Rightarrow> work list" where
  "deleteOne i [] = []"
| "deleteOne i (w # ws) = (if oid w = i then ws else w # deleteOne i ws)"

fun updateOne :: "objid \<Rightarrow> (work \<Rightarrow> work) \<Rightarrow> work list \<Rightarrow> work list" where
  "updateOne i f [] = []"
| "updateOne i f (w # ws) = (if oid w = i then f w # ws else w # updateOne i f ws)"

definition Work_find :: "work list action" where
  "Work_find st = (Inr (docs st), record_event (Called ''find'' []) st)"

definition Work_findById :: "string \<Rightarrow> work option action" where
  "Work_findById s st =
     (let st' = record_event (Called ''findById'' [s]) st in
      case castObjectId s of
        None \<Rightarrow> (Inl (CastError ''_id''), st')
      | Some i \<Rightarrow> (Inr (findOne i (docs st')), st'))"

definition Work_findByIdAndDelete :: "string \<Rightarrow> work option action" where
  "Work_findByIdAndDelete s st =
     (let st' = record_event (Called ''findByIdAndDelete'' [s]) st in
      case castObjectId s of
        None \<Rightarrow> (Inl (CastError ''_id''), st')
      | Some i \<Rightarrow> (Inr (findOne i (docs st')), st'\<lparr>docs := deleteOne i (docs st')\<rparr>))"

text \<open>
  The schema: both paths are of type String and \<^verbatim>\<open>required: true\<close>. A required String path
  passes when its value is a string of positive length.
\<close>

definition checkRequired :: "string option \<Rightarrow> bool" where
  "checkRequired v = (case v of None \<Rightarrow> False | Some s \<Rightarrow> s \<noteq> [])"

definition castString :: "reqfield \<Rightarrow> string option option" where
  "castString f =
     (case f of
        Undefined \<Rightarrow> Some None
      | Null \<Rightarrow> Some None
      | Str s \<Rightarrow> Some (Some s)
      | Uncastable \<Rightarrow> None)"

definition validField :: "reqfield \<Rightarrow> bool" where
  "validField f = (case castString f of None \<Rightarrow> False | Some v \<Rightarrow> checkRequired v)"

definition invalidPaths :: "bool \<Rightarrow> bool \<Rightarrow> string list" where
  "invalidPaths title_ok description_ok =
     (if title_ok then [] else [''title'']) @ (if description_ok then [] else [''description''])"

text \<open>
  \<^verbatim>\<open>new Work({ title, description })\<close> draws a new ObjectId from the driver's generator
  (the argument \<open>newId\<close>) and keeps the two values as given; \<^verbatim>\<open>save()\<close> on the new document
  validates it, and then inserts it, which MongoDB refuses when the \<^verbatim>\<open>_id\<close> is already in
  the collection. \<^verbatim>\<open>save()\<close> resolves to the saved document, which is the object
  \<^verbatim>\<open>newWork\<close> itself.
\<close>

record newdoc =
  new_id :: objid
  new_title :: reqfield
  new_description :: reqfield

definition Work_new :: "reqfield \<Rightarrow> reqfield \<Rightarrow> objid \<Rightarrow> newdoc" where
  "Work_new t d newId = \<lparr>new_id = newId, new_title = t, new_description = d\<rparr>"

definition castOrNull :: "reqfield \<Rightarrow> string option" where
  "castOrNull f = (case castString f of None \<Rightarrow> None | Some v \<Rightarrow> v)"

definition save_new :: "newdoc \<Rightarrow> work action" where
  "save_new nd st =
     (let st' = record_event (Called ''save'' []) st;
          title_ok = validField (new_title nd);
          description_ok = validField (new_description nd)
      in if \<not> (title_ok \<and> description_ok)
         then (Inl (ValidationError (invalidPaths title_ok description_ok)), st')
         else if new_id nd \<in> set (map oid (docs st'))
         then (Inl (DuplicateKey (new_id nd)), st')
         else (let w = \<lparr>oid = new_id nd, title = castOrNull (new_title nd),
                         description = castOrNull (new_description nd)\<rparr>
               in (Inr w, st'\<lparr>docs := docs st' @ [w]\<rparr>)))"

text \<open>
  \<^verbatim>\<open>findByIdAndUpdate(id, { title, description })\<close>: the update is cast against the schema
  (a value that does not cast to String throws), undefined keys are dropped, the rest is
  \<^verbatim>\<open>$set\<close> on the first document with that id, without running validators; the call
  resolves to the document as it was before the update, or to \<^verbatim>\<open>null\<close>.
\<close>

definition applyUpdate :: "reqfield \<Rightarrow> reqfield \<Rightarrow> work \<Rightarrow> work" where
  "applyUpdate t d w =
     (let w1 = (case t of Undefined \<Rightarrow> w | Null \<Rightarrow> w\<lparr>title := None\<rparr>
                        | Str s \<Rightarrow> w\<lparr>title := Some s\<rparr> | Uncastable \<Rightarrow> w)
      in (case d of Undefined \<Rightarrow> w1 | Null \<Rightarrow> w1\<lparr>description := None\<rparr>
                  | Str s \<Rightarrow> w1\<lparr>description := Some s\<rparr> | Uncastable \<Rightarrow> w1))"

definition Work_findByIdAndUpdate :: "string \<Rightarrow> reqfield \<Rightarrow> reqfield \<Rightarrow> work option action" where
  "Work_findByIdAndUpdate s t d st =
     (let st' = record_event (Called ''findByIdAndUpdate'' [s]) st in
      case castObjectId s of
        None \<Rightarrow> (Inl (CastError ''_id''), st')
      | Some i \<Rightarrow>
          if t = Uncastable then (Inl (CastError ''title''), st')
          else if d = Uncastable then (Inl (CastError ''description''), st')
          else (Inr (findOne i (docs st')), st'\<lparr>docs := updateOne i (applyUpdate t d) (docs st')\<rparr>))"

text \<open>
  \<^verbatim>\<open>updateWork.save()\<close> on the result of \<^verbatim>\<open>findByIdAndUpdate\<close>: on \<^verbatim>\<open>null\<close> the method call
  is a TypeError. On a loaded document nothing has been modified, so nothing is written,
  but \<^verbatim>\<open>save()\<close> still validates the required paths of the document it is called on, and
  checks that the document is still in the collection.
\<close>

definition save_loaded :: "work option \<Rightarrow> unit action" where
  "save_loaded r st =
     (case r of
        None \<Rightarrow> (Inl TypeError, st)
      | Some w \<Rightarrow>
          (let st' = record_event (Called ''save'' []) st in
           if \<not> (checkRequired (title w) \<and> checkRequired (description w))
           then (Inl (ValidationError
                   (invalidPaths (checkRequired (title w)) (checkRequired (description w)))), st')
           else if findOne (oid w) (docs st') = None
           then (Inl (DocumentNotFoundError (oid w)), st')
           else (Inr (), st')))"

subsection \<open>The five handlers\<close>

text \<open>\<^verbatim>\<open>router.get("/works", ...)\<close>\<close>

definition get_works :: "unit action" where
  "get_works =
     andThen Work_find (\<lambda>works.
     andThen (res_status 200) (\<lambda>_.
     res_json (Works works)))"

text \<open>\<^verbatim>\<open>router.get("/works/:id", ...)\<close>: no \<^verbatim>\<open>try\<close>, no test of the result.\<close>

definition get_works_id :: "string \<Rightarrow> unit action" where
  "get_works_id idp =
     andThen (Work_findById idp) (\<lambda>work.
     andThen (res_status 200) (\<lambda>_.
     res_json (Work work)))"

text \<open>\<^verbatim>\<open>router.post("/works", ...)\<close>; \<open>newId\<close> is the ObjectId the constructor generates.\<close>

definition post_works :: "reqfield \<Rightarrow> reqfield \<Rightarrow> objid \<Rightarrow> unit action" where
  "post_works t d newId =
     tryCatch
       (andThen (save_new (Work_new t d newId)) (\<lambda>newWork.
        andThen (res_status 200) (\<lambda>_.
        res_json (Created ''new work created'' newWork))))
       (\<lambda>error.
        andThen (console_log error) (\<lambda>_.
        andThen (res_status 500) (\<lambda>_.
        res_json (Message ''unable to create new work''))))"

text \<open>
  \<^verbatim>\<open>router.delete("/works/:id", ...)\<close>: the \<^verbatim>\<open>if (!work)\<close> branch sends the 404 and falls
  through, there is no \<^verbatim>\<open>return\<close>.
\<close>

definition delete_works_id :: "string \<Rightarrow> unit action" where
  "delete_works_id idp =
     tryCatch
       (andThen (Work_findById idp) (\<lambda>work.
        andThen (if work = None
                 then andThen (res_status 404) (\<lambda>_. res_json (Message ''work not found''))
                 else return ()) (\<lambda>_.
        andThen (Work_findByIdAndDelete idp) (\<lambda>_.
        andThen (res_status 200) (\<lambda>_.
        res_json (Deleted ''work deleted'' work))))))
       (\<lambda>error.
        andThen (console_log error) (\<lambda>_.
        andThen (res_status 500) (\<lambda>_.
        res_json (Message ''unable to delete work''))))"

text \<open>\<^verbatim>\<open>router.put("/works/:id", ...)\<close>: here the \<^verbatim>\<open>if (!work)\<close> branch returns.\<close>

definition put_works_id :: "string \<Rightarrow> reqfield \<Rightarrow> reqfield \<Rightarrow> unit action" where
  "put_works_id idp t d =
     tryCatch
       (andThen (Work_findById idp) (\<lambda>work.
        if work = None
        then andThen (res_status 404) (\<lambda>_. res_json (Message ''no book found''))
        else
          andThen (Work_findByIdAndUpdate idp t d) (\<lambda>updateWork.
          andThen (save_loaded updateWork) (\<lambda>_.
          andThen (res_status 200) (\<lambda>_.
          res_json (Work updateWork))))))
       (\<lambda>error.
        andThen (console_log error) (\<lambda>_.
        andThen (res_status 500) (\<lambda>_.
        res_json (Message ''unable to update work''))))"

subsection \<open>The router, and requests one after another\<close>

text \<open>
  The router dispatches on method and path. A request is served on a fresh response
  object; the next request sees the collection the previous one left.
\<close>

datatype request =
    GetWorks
  | GetWork string
  | PostWork reqfield reqfield objid
  | DeleteWork string
  | PutWork string reqfield reqfield

fun router :: "request \<Rightarrow> unit action" where
  "router GetWorks = get_works"
| "router (GetWork idp) = get_works_id idp"
| "router (PostWork t d newId) = post_works t d newId"
| "router (DeleteWork idp) = delete_works_id idp"
| "router (PutWork idp t d) = put_works_id idp t d"

definition serve :: "request \<Rightarrow> work list \<Rightarrow> (error + unit) \<times> hstate" where
  "serve r ws = router r (request_start ws)"

definition response :: "request \<Rightarrow> work list \<Rightarrow> (nat \<times> body) option" where
  "response r ws = sent (snd (serve r ws))"

definition store_after :: "request \<Rightarrow> work list \<Rightarrow> work list" where
  "store_after r ws = docs (snd (serve r ws))"

fun serve_all :: "request list \<Rightarrow> work list \<Rightarrow> work list" where
  "serve_all [] ws = ws"
| "serve_all (r # rs) ws = serve_all rs (store_after r ws)"

fun is_put :: "request \<Rightarrow> bool" where
  "is_put (PutWork idp t d) = True"
| "is_put r = False"


text \<open>MongoDB's unique index on \<^verbatim>\<open>_id\<close>: no two documents of the collection share an id.\<close>

definition unique_ids :: "work list \<Rightarrow> bool" where
  "unique_ids ws = distinct (map oid ws)"

subsection \<open>The application: body parser, id generator, router\<close>

text \<open>
  \<^verbatim>\<open>app.use(express.json())\<close> comes before \<^verbatim>\<open>app.use("/api", workRoute)\<close>. What the parser
  makes of a request body: there is none (\<^verbatim>\<open>req.body\<close> is the empty object, so both keys
  are undefined), it is a JSON object (seen through its \<^verbatim>\<open>title\<close> and \<^verbatim>\<open>description\<close>), it
  is JSON that does not parse, or it is over the parser's size limit. In the last two cases
  the parser passes an error of status 400, respectively 413, to Express, which answers it;
  no handler runs.
\<close>

datatype payload = NoPayload | JsonObject reqfield reqfield | Unparsable | TooLarge

definition express_json :: "payload \<Rightarrow> nat + (reqfield \<times> reqfield)" where
  "express_json p =
     (case p of
        NoPayload \<Rightarrow> Inr (Undefined, Undefined)
      | JsonObject t d \<Rightarrow> Inr (t, d)
      | Unparsable \<Rightarrow> Inl 400
      | TooLarge \<Rightarrow> Inl 413)"

text \<open>
  Modelled from the spec: the ObjectId generator of the driver, which \<^verbatim>\<open>new Work(...)\<close> calls
  and which is not part of the repository. The spec has the id as an opaque unique
  identifier assigned by the persistence layer on creation. The generator starts from a
  value of its own (\<open>seed\<close>: time, process, counter) and hands out the first id from there
  on that no stored document has; only when the collection has used up all ids is there
  none, and the seed itself is returned.
\<close>

definition newObjectId :: "objid \<Rightarrow> work list \<Rightarrow> objid" where
  "newObjectId seed ws =
     (case find (\<lambda>i. i \<notin> set (map oid ws))
             (map (\<lambda>k. seed + of_nat k) [0..<Suc (length ws)]) of
        None \<Rightarrow> seed
      | Some i \<Rightarrow> i)"

datatype endpoint =
    GET_works
  | GET_works_id string
  | POST_works objid        \<comment> \<open>with the value the id generator starts from\<close>
  | DELETE_works_id string
  | PUT_works_id string

fun dispatch :: "endpoint \<Rightarrow> reqfield \<Rightarrow> reqfield \<Rightarrow> work list \<Rightarrow> request" where
  "dispatch GET_works t d ws = GetWorks"
| "dispatch (GET_works_id idp) t d ws = GetWork idp"
| "dispatch (POST_works seed) t d ws = PostWork t d (newObjectId seed ws)"
| "dispatch (DELETE_works_id idp) t d ws = DeleteWork idp"
| "dispatch (PUT_works_id idp) t d ws = PutWork idp t d"

text \<open>
  What the client gets: the response a handler wrote, the error response of Express, or
  nothing (the handler ended without writing one).
\<close>

datatype reply = FromHandler nat body | FromExpress nat | NoReply


definition app :: "endpoint \<Rightarrow> payload \<Rightarrow> work list \<Rightarrow> reply \<times> work list" where
  "app e p ws =
     (case express_json p of
        Inl n \<Rightarrow> (FromExpress n, ws)
      | Inr (t, d) \<Rightarrow>
          (let r = dispatch e t d ws
           in (case response r ws of None \<Rightarrow> NoReply | Some (n, b) \<Rightarrow> FromHandler n b,
               store_after r ws)))"

section \<open>Properties\<close>

lemmas action_defs = return_def andThen_def tryCatch_def record_event_def res_status_def
  res_json_def console_log_def request_start_def
lemmas model_defs = Work_find_def Work_findById_def Work_findByIdAndDelete_def
  Work_findByIdAndUpdate_def Work_new_def save_new_def save_loaded_def Let_def
  validField_def castString_def castOrNull_def checkRequired_def invalidPaths_def
lemmas handler_defs = get_works_def get_works_id_def post_works_def delete_works_id_def
  put_works_id_def serve_def response_def store_after_def

subsection \<open>The collection\<close>

lemma findOne_None_iff: "findOne i ws = None \<longleftrightarrow> i \<notin> oid ` set ws"
  by (induction ws) auto

lemma findOne_Some_mem: "findOne i ws = Some w \<Longrightarrow> w \<in> set ws \<and> oid w = i"
  by (induction ws) (auto split: if_splits)

lemma findOne_unique: "distinct (map oid ws) \<Longrightarrow> w \<in> set ws \<Longrightarrow> findOne (oid w) ws = Some w"
  by (induction ws) auto

lemma deleteOne_absent: "i \<notin> oid ` set ws \<Longrightarrow> deleteOne i ws = ws"
  by (induction ws) auto

lemma set_deleteOne_subset: "set (deleteOne i ws) \<subseteq> set ws"
  by (induction ws) auto

lemma deleteOne_unique_gone: "distinct (map oid ws) \<Longrightarrow> i \<notin> oid ` set (deleteOne i ws)"
  by (induction ws) auto

lemma distinct_deleteOne: "distinct (map oid ws) \<Longrightarrow> distinct (map oid (deleteOne i ws))"
proof (induction ws)
  case Nil
  then show ?case by simp
next
  case (Cons a ws)
  then show ?case using set_deleteOne_subset [of i ws] by auto
qed

lemma map_oid_updateOne:
  "(\<And>w. oid (f w) = oid w) \<Longrightarrow> map oid (updateOne i f ws) = map oid ws"
  by (induction ws) auto

lemma oid_applyUpdate: "oid (applyUpdate t d w) = oid w"
  by (cases t; cases d) (simp_all add: applyUpdate_def)

lemma findOne_updateOne:
  "findOne i ws = Some w \<Longrightarrow> oid (f w) = i \<Longrightarrow> findOne i (updateOne i f ws) = Some (f w)"
  by (induction ws) auto

lemma length_toHexString: "length (toHexString i) = 24"
  by (simp add: toHexString_def)

lemma findOne_append_fresh: "i \<notin> oid ` set ws \<Longrightarrow> oid w = i \<Longrightarrow> findOne i (ws @ [w]) = Some w"
  by (induction ws) auto

subsection \<open>An id written in hexadecimal casts back to itself\<close>

lemma hexDigit_hexChar: "hexDigit (hexChar n) = Some (n mod 16)"
proof -
  have "\<forall>m \<in> set [0..<16]. hexDigit (''0123456789abcdef'' ! m) = Some m"
    by code_simp
  moreover have "n mod 16 \<in> set [0..<16]" by simp
  ultimately show ?thesis unfolding hexChar_def by blast
qed

lemma hexDigits_map_hexChar:
  "hexDigits (map (\<lambda>k. hexChar (f k)) ks) = Some (map (\<lambda>k. f k mod 16) ks)"
  by (induction ks) (simp_all add: hexDigit_hexChar)

lemma foldl_digits:
  "foldl (\<lambda>acc d. acc * 16 + d) 0 (map (\<lambda>k. (n div 16 ^ (m - Suc k)) mod 16) [0..<m])
     = (n :: nat) mod 16 ^ m"
proof (induction m arbitrary: n)
  case 0
  then show ?case by simp
next
  case (Suc m)
  let ?F = "\<lambda>(acc :: nat) d. acc * 16 + d"
  let ?f = "\<lambda>k. (n div 16 ^ (Suc m - Suc k)) mod 16"
  let ?g = "\<lambda>k. ((n div 16) div 16 ^ (m - Suc k)) mod 16"
  have e: "map ?f [0..<m] = map ?g [0..<m]"
  proof (rule map_cong [OF refl])
    fix k assume "k \<in> set [0..<m]"
    then have "m - k = Suc (m - Suc k)" by auto
    then show "?f k = ?g k"
      by (simp add: div_mult2_eq)
  qed
  have "foldl ?F 0 (map ?f [0..<Suc m]) = foldl ?F 0 (map ?f [0..<m]) * 16 + ?f m"
    by simp
  also have "\<dots> = foldl ?F 0 (map ?g [0..<m]) * 16 + n mod 16"
    by (simp only: e) simp
  also have "\<dots> = (n div 16 mod 16 ^ m) * 16 + n mod 16"
    by (simp only: Suc.IH [of "n div 16"])
  also have "\<dots> = n mod 16 ^ Suc m"
    by (simp add: mod_mult2_eq)
  finally show ?case .
qed

lemma cast_toHexString: "castObjectId (toHexString i) = Some i"
proof -
  have l: "length (toHexString i) = 24" by (simp add: toHexString_def)
  have h: "hexDigits (toHexString i)
             = Some (map (\<lambda>k. unat i div 16 ^ (23 - k) mod 16) [0..<24])"
    by (simp only: toHexString_def hexDigits_map_hexChar)
  have m: "(\<lambda>k. unat i div 16 ^ (24 - Suc k) mod 16) = (\<lambda>k. unat i div 16 ^ (23 - k) mod 16)"
    by (rule ext) simp
  have u: "unat i < 2 ^ 96" using unsigned_less [of i, where 'a = nat] by simp
  have p: "(2::nat) ^ 96 = 16 ^ 24" by simp
  have v: "unat i mod 16 ^ 24 = unat i" using u unfolding p by simp
  have f: "foldl (\<lambda>acc d. acc * 16 + d) 0
             (map (\<lambda>k. unat i div 16 ^ (23 - k) mod 16) [0..<24]) = unat i"
    using foldl_digits [of "unat i" 24] unfolding m v .
  show ?thesis
    by (simp add: castObjectId_def l h f)
qed

subsection \<open>The generator hands out an unused id\<close>

lemma candidates_distinct:
  assumes "n < 2 ^ 96"
  shows "distinct (map (\<lambda>k. (seed :: objid) + of_nat k) [0..<Suc n])"
proof -
  have "inj_on (\<lambda>k. (seed :: objid) + of_nat k) (set [0..<Suc n])"
  proof (rule inj_onI)
    fix a b assume a: "a \<in> set [0..<Suc n]" and b: "b \<in> set [0..<Suc n]"
      and e: "seed + of_nat a = seed + (of_nat b :: objid)"
    have "a < 2 ^ LENGTH(96)" "b < 2 ^ LENGTH(96)" using a b assms by auto
    then have "take_bit LENGTH(96) a = a" "take_bit LENGTH(96) b = b"
      by (simp_all only: take_bit_nat_eq_self)
    moreover have "(of_nat a :: objid) = of_nat b" using e by simp
    ultimately show "a = b"
      by (simp only: word_of_nat_eq_iff)
  qed
  then show ?thesis by (simp only: distinct_map distinct_upt simp_thms)
qed

lemma newObjectId_fresh:
  assumes "length ws < 2 ^ 96"
  shows "newObjectId seed ws \<notin> oid ` set ws"
proof -
  let ?cs = "map (\<lambda>k. seed + of_nat k) [0..<Suc (length ws)]"
  let ?free = "\<lambda>i. i \<notin> set (map oid ws)"
  have d: "distinct ?cs" using candidates_distinct [OF assms] .
  have "\<exists>c \<in> set ?cs. ?free c"
  proof (rule ccontr)
    assume "\<not> (\<exists>c \<in> set ?cs. ?free c)"
    then have "set ?cs \<subseteq> set (map oid ws)" by blast
    then have "card (set ?cs) \<le> card (set (map oid ws))"
      by (rule card_mono [OF finite_set])
    moreover have "card (set ?cs) = Suc (length ws)"
      using distinct_card [OF d] by (simp only: length_map length_upt)
    moreover have "card (set (map oid ws)) \<le> length ws"
      using card_length [of "map oid ws"] by simp
    ultimately show False by simp
  qed
  then have "find ?free ?cs \<noteq> None"
    by (simp only: find_None_iff) blast
  then obtain i where s: "find ?free ?cs = Some i" by blast
  then have "?free i"
    unfolding find_Some_iff by blast
  then show ?thesis unfolding newObjectId_def s by simp
qed

subsection \<open>What each request leaves in the collection\<close>

lemma store_after_get: "store_after GetWorks ws = ws" "store_after (GetWork s) ws = ws"
  by (simp_all add: handler_defs model_defs action_defs split: option.splits)

lemma store_after_post:
  "store_after (PostWork t d newId) ws = ws
   \<or> (newId \<notin> oid ` set ws
      \<and> (\<exists>x. oid x = newId \<and> store_after (PostWork t d newId) ws = ws @ [x]))"
  by (cases t; cases d) (auto simp: handler_defs model_defs action_defs)

lemma store_after_delete:
  "store_after (DeleteWork s) ws =
     (case castObjectId s of None \<Rightarrow> ws | Some i \<Rightarrow> deleteOne i ws)"
  by (cases "castObjectId s"; cases "findOne (the (castObjectId s)) ws")
     (auto simp: handler_defs model_defs action_defs)

lemma store_after_put_oids: "map oid (store_after (PutWork s t d) ws) = map oid ws"
proof (cases "castObjectId s")
  case None
  then show ?thesis by (simp add: handler_defs model_defs action_defs)
next
  case (Some i)
  have m: "map oid (updateOne i (applyUpdate t d) ws) = map oid ws"
    by (rule map_oid_updateOne) (simp add: oid_applyUpdate)
  show ?thesis
    using Some m
    by (cases "findOne i ws")
       (auto simp: handler_defs model_defs action_defs split: sum.splits prod.splits if_splits)
qed

text \<open>
  No request breaks the uniqueness of ids, so every collection reached from the empty one
  has it.
\<close>

lemma unique_ids_store_after: "unique_ids ws \<Longrightarrow> unique_ids (store_after r ws)"
proof (cases r)
  case (PostWork t d newId)
  assume "unique_ids ws"
  then show ?thesis using PostWork store_after_post [of t d newId ws]
    by (auto simp: unique_ids_def)
next
  case (DeleteWork s)
  assume "unique_ids ws"
  then show ?thesis using DeleteWork
    by (auto simp: unique_ids_def store_after_delete distinct_deleteOne split: option.splits)
next
  case (PutWork s t d)
  assume "unique_ids ws"
  then show ?thesis using PutWork store_after_put_oids [of s t d ws]
    by (simp add: unique_ids_def)
qed (simp_all add: store_after_get)

lemma unique_ids_serve_all: "unique_ids ws \<Longrightarrow> unique_ids (serve_all rs ws)"
  by (induction rs arbitrary: ws) (simp_all add: unique_ids_store_after)

subsection \<open>What each request answers\<close>

lemma res_get_works: "response GetWorks ws = Some (200, Works ws)"
  by (simp add: handler_defs model_defs action_defs)

lemma res_get_work:
  "response (GetWork s) ws =
     (case castObjectId s of None \<Rightarrow> None | Some i \<Rightarrow> Some (200, Work (findOne i ws)))"
  by (simp add: handler_defs model_defs action_defs split: option.splits)




lemma put_existing:
  assumes "castObjectId s = Some i" "findOne i ws = Some w"
    "checkRequired (title w)" "checkRequired (description w)"
  shows "serve (PutWork s (Str t) (Str d)) ws =
     (Inr (), \<lparr>docs = updateOne i (applyUpdate (Str t) (Str d)) ws, statusCode = 200,
               sent = Some (200, Work (Some w)),
               trace = [Called ''findById'' [s], Called ''findByIdAndUpdate'' [s],
                        Called ''save'' [], Responded 200 (Work (Some w))]\<rparr>)"
proof -
  have "oid w = i" using assms(2) findOne_Some_mem by blast
  then have "findOne (oid w) (updateOne i (applyUpdate (Str t) (Str d)) ws) \<noteq> None"
    using findOne_updateOne [OF assms(2), of "applyUpdate (Str t) (Str d)"]
    by (simp add: oid_applyUpdate)
  then show ?thesis
    using assms by (simp add: handler_defs model_defs action_defs)
qed

subsection \<open>GET /works/:id\<close>

text \<open>
  C1. For an id string that casts to an ObjectId: when no stored document has that id, the
  handler answers 200 with the body \<^verbatim>\<open>null\<close> (no 404); when a stored document has it (ids
  being unique in the collection), the handler answers 200 with that document. The
  collection is untouched.
\<close>

theorem get_by_id_null_or_item:
  assumes "castObjectId s = Some i"
  shows "(i \<notin> oid ` set ws \<longrightarrow> response (GetWork s) ws = Some (200, Work None))
       \<and> (\<forall>w \<in> set ws. unique_ids ws \<and> oid w = i \<longrightarrow>
             response (GetWork s) ws = Some (200, Work (Some w)))
       \<and> store_after (GetWork s) ws = ws"
  using assms findOne_unique [of ws]
  by (auto simp: handler_defs model_defs action_defs unique_ids_def
        findOne_None_iff [symmetric])

theorem get_by_id_null_or_item_witness:
  "castObjectId ''000000000000000000000001'' = Some 1
   \<and> 1 \<notin> oid ` set []
   \<and> response (GetWork ''000000000000000000000001'') [] = Some (200, Work None)
   \<and> \<lparr>oid = 1, title = Some ''a'', description = Some ''b''\<rparr>
        \<in> set [\<lparr>oid = 1, title = Some ''a'', description = Some ''b''\<rparr>]
   \<and> unique_ids [\<lparr>oid = 1, title = Some ''a'', description = Some ''b''\<rparr>]
   \<and> response (GetWork ''000000000000000000000001'')
        [\<lparr>oid = 1, title = Some ''a'', description = Some ''b''\<rparr>]
      = Some (200, Work (Some \<lparr>oid = 1, title = Some ''a'', description = Some ''b''\<rparr>))"
proof -
  have h: "castObjectId ''000000000000000000000001'' = Some 1" by code_simp
  have u: "unique_ids [\<lparr>oid = 1, title = Some ''a'', description = Some ''b''\<rparr>]"
    by (simp add: unique_ids_def)
  show ?thesis
    using h u get_by_id_null_or_item [OF h, of "[]"]
      get_by_id_null_or_item [OF h, of "[\<lparr>oid = 1, title = Some ''a'', description = Some ''b''\<rparr>]"]
    by simp
qed

text \<open>
  C9. For an id string that does not cast to an ObjectId, \<^verbatim>\<open>findById\<close> throws the
  CastError; the GET handler has no \<^verbatim>\<open>try\<close>, so the handler ends with that error
  uncaught, having written no response at all (in particular no 500) and logged nothing.
\<close>

theorem get_malformed_id_uncaught:
  assumes "castObjectId s = None"
  shows "serve (GetWork s) ws =
           (Inl (CastError ''_id''),
            \<lparr>docs = ws, statusCode = 200, sent = None, trace = [Called ''findById'' [s]]\<rparr>)"
  using assms
  by (simp add: handler_defs model_defs action_defs)

theorem get_malformed_id_uncaught_witness:
  "castObjectId ''abc'' = None
   \<and> serve (GetWork ''abc'') [] =
           (Inl (CastError ''_id''),
            \<lparr>docs = [], statusCode = 200, sent = None, trace = [Called ''findById'' [''abc'']]\<rparr>)"
proof -
  have h: "castObjectId ''abc'' = None" by (simp add: castObjectId_def)
  show ?thesis using h get_malformed_id_uncaught [OF h, of "[]"] by simp
qed

subsection \<open>DELETE /works/:id\<close>

text \<open>
  C10. Whenever DELETE has written a 404 (which it does exactly for a well-formed id that no
  stored document has), the handler has not returned after it. It went on to call
  \<^verbatim>\<open>findByIdAndDelete\<close>, which found nothing and left the collection as it was, and then
  tried to send 200 with \<^verbatim>\<open>{ message, work: null }\<close> on the same response; that threw,
  the \<^verbatim>\<open>catch\<close> logged the error and tried to send 500, which threw again, and the
  handler ended with that error. The client has the 404.
\<close>

theorem delete_absent_falls_through:
  assumes "response (DeleteWork s) ws = Some (404, b)"
  shows "serve (DeleteWork s) ws =
           (Inl HeadersSent,
            \<lparr>docs = ws, statusCode = 500,
             sent = Some (404, Message ''work not found''),
             trace = [Called ''findById'' [s],
                      Responded 404 (Message ''work not found''),
                      Called ''findByIdAndDelete'' [s],
                      RespondFailed 200 (Deleted ''work deleted'' None),
                      ConsoleLog HeadersSent,
                      RespondFailed 500 (Message ''unable to delete work'')]\<rparr>)"
proof (cases "castObjectId s")
  case None
  then have "response (DeleteWork s) ws = Some (500, Message ''unable to delete work'')"
    by (simp add: handler_defs model_defs action_defs)
  then show ?thesis using assms by simp
next
  case (Some i)
  show ?thesis
  proof (cases "findOne i ws")
    case None
    then have "deleteOne i ws = ws"
      by (simp add: findOne_None_iff deleteOne_absent)
    then show ?thesis
      using Some None by (simp add: handler_defs model_defs action_defs)
  next
    case (Some w)
    then have "response (DeleteWork s) ws = Some (200, Deleted ''work deleted'' (Some w))"
      using \<open>castObjectId s = Some i\<close>
      by (simp add: handler_defs model_defs action_defs)
    then show ?thesis using assms by simp
  qed
qed

theorem delete_absent_falls_through_witness:
  "response (DeleteWork ''000000000000000000000001'') []
     = Some (404, Message ''work not found'')
   \<and> serve (DeleteWork ''000000000000000000000001'') [] =
           (Inl HeadersSent,
            \<lparr>docs = [], statusCode = 500,
             sent = Some (404, Message ''work not found''),
             trace = [Called ''findById'' [''000000000000000000000001''],
                      Responded 404 (Message ''work not found''),
                      Called ''findByIdAndDelete'' [''000000000000000000000001''],
                      RespondFailed 200 (Deleted ''work deleted'' None),
                      ConsoleLog HeadersSent,
                      RespondFailed 500 (Message ''unable to delete work'')]\<rparr>)"
proof -
  have h: "response (DeleteWork ''000000000000000000000001'') []
     = Some (404, Message ''work not found'')"
    by code_simp
  show ?thesis using h delete_absent_falls_through [OF h] by simp
qed

text \<open>
  C3, as the code has it. For an id string that casts to an ObjectId and that no stored
  document has, the client gets 404 and the collection is unchanged; and in a collection with
  unique ids, a second DELETE of the same id gets 404, whether the first one found the
  document or not.
\<close>

theorem delete_absent_404:
  assumes "castObjectId s = Some i"
  shows "(i \<notin> oid ` set ws \<longrightarrow>
            response (DeleteWork s) ws = Some (404, Message ''work not found'')
          \<and> store_after (DeleteWork s) ws = ws)
       \<and> (unique_ids ws \<longrightarrow>
            response (DeleteWork s) (store_after (DeleteWork s) ws)
              = Some (404, Message ''work not found''))"
proof -
  have absent: "response (DeleteWork s) vs = Some (404, Message ''work not found'')
              \<and> store_after (DeleteWork s) vs = vs" if "i \<notin> oid ` set vs" for vs
    using assms that
    by (simp add: handler_defs model_defs action_defs findOne_None_iff [symmetric]
          deleteOne_absent)
  have after: "store_after (DeleteWork s) ws = deleteOne i ws"
    using assms by (simp add: store_after_delete)
  show ?thesis
    using absent [of ws] absent [of "deleteOne i ws"] after deleteOne_unique_gone [of ws i]
    by (simp add: unique_ids_def)
qed

theorem delete_absent_404_witness:
  "castObjectId ''000000000000000000000001'' = Some 1
   \<and> 1 \<notin> oid ` set []
   \<and> response (DeleteWork ''000000000000000000000001'') []
       = Some (404, Message ''work not found'')
   \<and> store_after (DeleteWork ''000000000000000000000001'') [] = []
   \<and> unique_ids [\<lparr>oid = 1, title = Some ''a'', description = Some ''b''\<rparr>]
   \<and> response (DeleteWork ''000000000000000000000001'')
        (store_after (DeleteWork ''000000000000000000000001'')
           [\<lparr>oid = 1, title = Some ''a'', description = Some ''b''\<rparr>])
       = Some (404, Message ''work not found'')"
proof -
  have h: "castObjectId ''000000000000000000000001'' = Some 1" by code_simp
  have u: "unique_ids [\<lparr>oid = 1, title = Some ''a'', description = Some ''b''\<rparr>]"
    by (simp add: unique_ids_def)
  show ?thesis
    using h u delete_absent_404 [OF h, of "[]"]
      delete_absent_404 [OF h, of "[\<lparr>oid = 1, title = Some ''a'', description = Some ''b''\<rparr>]"]
    by simp
qed

text \<open>
  C3 as stated quantifies over every id that is not in the store. The string \<^verbatim>\<open>abc\<close> is
  the id of no stored document, and DELETE on it answers 500, not 404: \<^verbatim>\<open>findById\<close> throws
  inside the \<^verbatim>\<open>try\<close>.
\<close>

theorem delete_malformed_id_counterexample:
  "castObjectId ''abc'' = None
   \<and> response (DeleteWork ''abc'') [\<lparr>oid = 1, title = Some ''a'', description = Some ''b''\<rparr>]
       = Some (500, Message ''unable to delete work'')
   \<and> response (DeleteWork ''abc'') [\<lparr>oid = 1, title = Some ''a'', description = Some ''b''\<rparr>]
       \<noteq> Some (404, Message ''work not found'')"
  by (simp add: handler_defs model_defs action_defs castObjectId_def)

subsection \<open>POST /works\<close>

text \<open>
  C4. When \<^verbatim>\<open>title\<close> or \<^verbatim>\<open>description\<close> is missing from the body, \<^verbatim>\<open>save()\<close> throws a
  ValidationError naming at least one path, the handler logs it and answers 500 with the
  fixed message, and the collection is unchanged.
\<close>

theorem post_missing_field_500:
  assumes "t = Undefined \<or> d = Undefined"
  shows "serve (PostWork t d newId) ws =
           (Inr (), \<lparr>docs = ws, statusCode = 500,
                     sent = Some (500, Message ''unable to create new work''),
                     trace = [Called ''save'' [],
                              ConsoleLog (ValidationError
                                (invalidPaths (validField t) (validField d))),
                              Responded 500 (Message ''unable to create new work'')]\<rparr>)
       \<and> invalidPaths (validField t) (validField d) \<noteq> []"
  using assms
  by (cases t; cases d)
     (auto simp: handler_defs model_defs action_defs invalidPaths_def validField_def
        castString_def checkRequired_def)

theorem post_missing_field_500_witness:
  "(Undefined = Undefined \<or> Str ''x'' = Undefined)
   \<and> serve (PostWork Undefined (Str ''x'') 1) [] =
           (Inr (), \<lparr>docs = [], statusCode = 500,
                     sent = Some (500, Message ''unable to create new work''),
                     trace = [Called ''save'' [],
                              ConsoleLog (ValidationError [''title'']),
                              Responded 500 (Message ''unable to create new work'')]\<rparr>)"
proof -
  have h: "Undefined = Undefined \<or> Str ''x'' = Undefined" by simp
  show ?thesis
    using post_missing_field_500 [OF h, of 1 "[]"]
    by (simp add: invalidPaths_def validField_def castString_def checkRequired_def)
qed

text \<open>
  The handler on a valid body, given an id that no stored document has.
\<close>

lemma post_valid_fresh:
  assumes "t \<noteq> []" "d \<noteq> []" "newId \<notin> oid ` set ws"
  shows "serve (PostWork (Str t) (Str d) newId) ws =
           (Inr (), \<lparr>docs = ws @ [\<lparr>oid = newId, title = Some t, description = Some d\<rparr>],
                     statusCode = 200,
                     sent = Some (200, Created ''new work created''
                                   \<lparr>oid = newId, title = Some t, description = Some d\<rparr>),
                     trace = [Called ''save'' [],
                              Responded 200 (Created ''new work created''
                                   \<lparr>oid = newId, title = Some t, description = Some d\<rparr>)]\<rparr>)"
  using assms
  by (simp add: handler_defs model_defs action_defs)

text \<open>
  C5, as the code has it. A POST /works whose body has \<^verbatim>\<open>title\<close> and \<^verbatim>\<open>description\<close> as
  non-empty text is answered 200 with \<^verbatim>\<open>{ message, newWork }\<close>; the new document is
  appended to the collection with the title and description of the body and with an id
  the generator assigned, which no document had before; written in hexadecimal that id is
  not empty, and GET /works/:id with it returns the new document. (A collection has fewer
  than \<open>2 ^ 96\<close> documents, so an unused 12-byte id exists.)
\<close>

theorem create_valid_200:
  assumes "t \<noteq> []" "d \<noteq> []" "length ws < 2 ^ 96"
  shows "app (POST_works seed) (JsonObject (Str t) (Str d)) ws =
           (FromHandler 200 (Created ''new work created''
              \<lparr>oid = newObjectId seed ws, title = Some t, description = Some d\<rparr>),
            ws @ [\<lparr>oid = newObjectId seed ws, title = Some t, description = Some d\<rparr>])
       \<and> newObjectId seed ws \<notin> oid ` set ws
       \<and> toHexString (newObjectId seed ws) \<noteq> []
       \<and> fst (app (GET_works_id (toHexString (newObjectId seed ws))) NoPayload
                (ws @ [\<lparr>oid = newObjectId seed ws, title = Some t, description = Some d\<rparr>]))
           = FromHandler 200
               (Work (Some \<lparr>oid = newObjectId seed ws, title = Some t, description = Some d\<rparr>))"
proof -
  let ?i = "newObjectId seed ws"
  let ?w = "\<lparr>oid = ?i, title = Some t, description = Some d\<rparr>"
  have fresh: "?i \<notin> oid ` set ws" using assms(3) by (rule newObjectId_fresh)
  have post: "app (POST_works seed) (JsonObject (Str t) (Str d)) ws
                = (FromHandler 200 (Created ''new work created'' ?w), ws @ [?w])"
    using post_valid_fresh [OF assms(1,2) fresh]
    by (simp add: app_def express_json_def response_def store_after_def)
  have nonempty: "toHexString ?i \<noteq> []"
    using length_toHexString [of ?i] by auto
  have "findOne ?i (ws @ [?w]) = Some ?w"
    using fresh by (simp add: findOne_append_fresh)
  then have get: "fst (app (GET_works_id (toHexString ?i)) NoPayload (ws @ [?w]))
                    = FromHandler 200 (Work (Some ?w))"
    by (simp add: app_def express_json_def res_get_work cast_toHexString)
  show ?thesis using post fresh nonempty get by simp
qed

theorem create_valid_200_witness:
  "''c'' \<noteq> [] \<and> ''d'' \<noteq> []
   \<and> length [\<lparr>oid = 1, title = Some ''a'', description = Some ''b''\<rparr>] < 2 ^ 96
   \<and> newObjectId 1 [\<lparr>oid = 1, title = Some ''a'', description = Some ''b''\<rparr>] = 2
   \<and> app (POST_works 1) (JsonObject (Str ''c'') (Str ''d''))
        [\<lparr>oid = 1, title = Some ''a'', description = Some ''b''\<rparr>]
      = (FromHandler 200 (Created ''new work created''
           \<lparr>oid = 2, title = Some ''c'', description = Some ''d''\<rparr>),
         [\<lparr>oid = 1, title = Some ''a'', description = Some ''b''\<rparr>,
          \<lparr>oid = 2, title = Some ''c'', description = Some ''d''\<rparr>])
   \<and> fst (app (GET_works_id (toHexString 2)) NoPayload
        [\<lparr>oid = 1, title = Some ''a'', description = Some ''b''\<rparr>,
         \<lparr>oid = 2, title = Some ''c'', description = Some ''d''\<rparr>])
      = FromHandler 200 (Work (Some \<lparr>oid = 2, title = Some ''c'', description = Some ''d''\<rparr>))"
proof -
  have a: "''c'' \<noteq> []" and b: "''d'' \<noteq> []"
    and c: "length [\<lparr>oid = 1, title = Some ''a'', description = Some ''b''\<rparr>] < 2 ^ 96"
    by simp_all
  have g: "newObjectId 1 [\<lparr>oid = 1, title = Some ''a'', description = Some ''b''\<rparr>] = 2"
    by (simp add: newObjectId_def)
  show ?thesis
    using c g create_valid_200 [OF a b c, of 1] by simp
qed

text \<open>
  C5 as stated asks only that the body contains both keys. A body whose \<^verbatim>\<open>title\<close> is the
  empty string contains both, and is refused by the \<^verbatim>\<open>required\<close> validator: the answer is
  500 and nothing is stored.
\<close>

theorem post_empty_title_counterexample:
  "response (PostWork (Str '''') (Str ''x'') 1) []
     = Some (500, Message ''unable to create new work'')
   \<and> store_after (PostWork (Str '''') (Str ''x'') 1) [] = []"
  by (simp add: handler_defs model_defs action_defs)

subsection \<open>GET /works\<close>

text \<open>
  C6. Whenever a POST answered 200 with a new document \<open>x\<close>, a following GET /works answers
  200 with the whole collection in insertion order, which is the old collection followed
  by \<open>x\<close>, and \<open>x\<close> occurs in it exactly once. On the empty collection GET /works answers
  200 with the empty array.
\<close>

theorem list_after_create:
  assumes "response (PostWork t d newId) ws = Some (200, Created m x)"
  shows "store_after (PostWork t d newId) ws = ws @ [x]
       \<and> response GetWorks (store_after (PostWork t d newId) ws) = Some (200, Works (ws @ [x]))
       \<and> count_list (ws @ [x]) x = 1
       \<and> response GetWorks [] = Some (200, Works [])"
proof -
  have s: "store_after (PostWork t d newId) ws = ws @ [x] \<and> oid x \<notin> oid ` set ws"
    using assms
    by (cases t; cases d)
       (auto simp: handler_defs model_defs action_defs split: if_splits)
  then have "x \<notin> set ws" by blast
  then have "count_list (ws @ [x]) x = 1" by (simp add: count_list_0_iff)
  then show ?thesis using s by (simp add: res_get_works)
qed

theorem list_after_create_witness:
  "response (PostWork (Str ''c'') (Str ''d'') 2)
       [\<lparr>oid = 1, title = Some ''a'', description = Some ''b''\<rparr>]
     = Some (200, Created ''new work created''
               \<lparr>oid = 2, title = Some ''c'', description = Some ''d''\<rparr>)
   \<and> response GetWorks
       (store_after (PostWork (Str ''c'') (Str ''d'') 2)
          [\<lparr>oid = 1, title = Some ''a'', description = Some ''b''\<rparr>])
     = Some (200, Works [\<lparr>oid = 1, title = Some ''a'', description = Some ''b''\<rparr>,
                         \<lparr>oid = 2, title = Some ''c'', description = Some ''d''\<rparr>])
   \<and> count_list [\<lparr>oid = 1, title = Some ''a'', description = Some ''b''\<rparr>,
                 \<lparr>oid = 2, title = Some ''c'', description = Some ''d''\<rparr>]
        \<lparr>oid = 2, title = Some ''c'', description = Some ''d''\<rparr> = 1"
proof -
  have h: "response (PostWork (Str ''c'') (Str ''d'') 2)
       [\<lparr>oid = 1, title = Some ''a'', description = Some ''b''\<rparr>]
     = Some (200, Created ''new work created''
               \<lparr>oid = 2, title = Some ''c'', description = Some ''d''\<rparr>)"
    by (simp add: handler_defs model_defs action_defs)
  show ?thesis using h list_after_create [OF h] by auto
qed

subsection \<open>PUT /works/:id\<close>

text \<open>
  On a stored document whose stored title and description are both non-empty, PUT answers
  200 with the document as it was before the update, the collection then holds the new
  title and description, and a following GET of the same id answers 200 with them.
\<close>

lemma put_valid_snapshot:
  assumes "w \<in> set ws" "unique_ids ws" "castObjectId s = Some (oid w)"
    "checkRequired (title w)" "checkRequired (description w)"
  shows "response (PutWork s (Str t) (Str d)) ws = Some (200, Work (Some w))
       \<and> findOne (oid w) (store_after (PutWork s (Str t) (Str d)) ws)
           = Some (w\<lparr>title := Some t, description := Some d\<rparr>)
       \<and> response (GetWork s) (store_after (PutWork s (Str t) (Str d)) ws)
           = Some (200, Work (Some (w\<lparr>title := Some t, description := Some d\<rparr>)))"
proof -
  have f: "findOne (oid w) ws = Some w"
    using assms(1,2) by (simp add: unique_ids_def findOne_unique)
  have p: "serve (PutWork s (Str t) (Str d)) ws =
     (Inr (), \<lparr>docs = updateOne (oid w) (applyUpdate (Str t) (Str d)) ws, statusCode = 200,
               sent = Some (200, Work (Some w)),
               trace = [Called ''findById'' [s], Called ''findByIdAndUpdate'' [s],
                        Called ''save'' [], Responded 200 (Work (Some w))]\<rparr>)"
    using put_existing [OF assms(3) f assms(4,5)] .
  have u: "applyUpdate (Str t) (Str d) w = w\<lparr>title := Some t, description := Some d\<rparr>"
    by (simp add: applyUpdate_def)
  have g: "findOne (oid w) (updateOne (oid w) (applyUpdate (Str t) (Str d)) ws)
             = Some (w\<lparr>title := Some t, description := Some d\<rparr>)"
    using findOne_updateOne [OF f, of "applyUpdate (Str t) (Str d)"] u by simp
  have r: "response (PutWork s (Str t) (Str d)) ws = Some (200, Work (Some w))"
    using p by (simp add: response_def)
  have a: "store_after (PutWork s (Str t) (Str d)) ws
             = updateOne (oid w) (applyUpdate (Str t) (Str d)) ws"
    using p by (simp add: store_after_def)
  have q: "response (GetWork s) vs = Some (200, Work (findOne (oid w) vs))" for vs
    using assms(3) by (simp add: res_get_work)
  show ?thesis using r a g q by simp
qed

text \<open>
  C2. The claim is that PUT on a stored document answers 200 with the pre-update snapshot
  while the collection takes the new title and description. The handler misses it on a
  stored document whose title is empty. Such a document is reached from the empty
  collection by a POST and a PUT with the empty title, since an update runs no validator.
  The next PUT on it writes the new values into the collection and then calls
  \<^verbatim>\<open>save()\<close> on the snapshot, whose required title is empty: the handler answers 500
  \<^verbatim>\<open>unable to update work\<close> although the update has been made.
\<close>

theorem put_stale_snapshot_500:
  "serve_all [PostWork (Str ''a'') (Str ''b'') 1,
              PutWork ''000000000000000000000001'' (Str '''') (Str ''b'')] []
     = [\<lparr>oid = 1, title = Some '''', description = Some ''b''\<rparr>]
   \<and> response (PutWork ''000000000000000000000001'' (Str ''c'') (Str ''d''))
       [\<lparr>oid = 1, title = Some '''', description = Some ''b''\<rparr>]
     = Some (500, Message ''unable to update work'')
   \<and> store_after (PutWork ''000000000000000000000001'' (Str ''c'') (Str ''d''))
       [\<lparr>oid = 1, title = Some '''', description = Some ''b''\<rparr>]
     = [\<lparr>oid = 1, title = Some ''c'', description = Some ''d''\<rparr>]"
  by code_simp

text \<open>
  C7. Whatever sequence of PUT requests is served, with whatever ids, titles and
  descriptions, the collection afterwards has the same documents in the same order with
  the same ids: of the three fields of a document only title and description can have
  changed.
\<close>

theorem put_sequence_keeps_ids:
  assumes "\<forall>r \<in> set rs. is_put r"
  shows "map oid (serve_all rs ws) = map oid ws"
  using assms
proof (induction rs arbitrary: ws)
  case Nil
  then show ?case by simp
next
  case (Cons r rs)
  then obtain s t d where "r = PutWork s t d" by (cases r) auto
  then show ?case using Cons store_after_put_oids by simp
qed

theorem put_sequence_keeps_ids_witness:
  "is_put (PutWork ''000000000000000000000001'' (Str ''c'') (Str ''d''))
   \<and> is_put (PutWork ''000000000000000000000001'' Null Undefined)
   \<and> map oid (serve_all [PutWork ''000000000000000000000001'' (Str ''c'') (Str ''d''),
                          PutWork ''000000000000000000000001'' Null Undefined]
                 [\<lparr>oid = 1, title = Some ''a'', description = Some ''b''\<rparr>]) = [1]"
proof -
  have h: "\<forall>r \<in> set [PutWork ''000000000000000000000001'' (Str ''c'') (Str ''d''),
                PutWork ''000000000000000000000001'' Null Undefined]. is_put r"
    by simp
  show ?thesis
    using h put_sequence_keeps_ids [OF h, of "[\<lparr>oid = 1, title = Some ''a'', description = Some ''b''\<rparr>]"]
    by simp
qed

subsection \<open>Status codes\<close>





end
